theory Spec2Isabelle
  imports Main
begin

section \<open>JavaScript strings\<close>

text \<open>
  A string is modelled as the list of its UTF-8 bytes. \<open>includesStr\<close> is the method
  \<open>includes\<close> of \<open>String.prototype\<close> (the name is reserved in Isabelle),
  \<open>startsWith\<close> is the method of that name, and \<open>toLowerCase\<close> lowers the letters
  \<open>A\<close> to \<open>Z\<close>; capital letters outside ASCII are left as they are.
\<close>

definition startsWith :: "string \<Rightarrow> string \<Rightarrow> bool" where
  "startsWith s p = (take (length p) s = p)"

fun includesStr :: "string \<Rightarrow> string \<Rightarrow> bool" where
  "includesStr [] needle = (needle = [])"
| "includesStr (c # cs) needle = (startsWith (c # cs) needle \<or> includesStr cs needle)"

definition lowerChar :: "char \<Rightarrow> char" where
  "lowerChar c =
     (if (65::nat) \<le> of_char c \<and> of_char c \<le> (90::nat)
      then char_of (of_char c + (32::nat)) else c)"

definition toLowerCase :: "string \<Rightarrow> string" where
  "toLowerCase s = map lowerChar s"

section \<open>Model types and capabilities (server/types/capabilities.ts)\<close>

datatype FreeboxModel = Ultra | Delta | Pop | Revolution | Unknown

datatype VmSupport = VmFull | VmLimited | VmNone

datatype TemperatureType = QuadCore | Legacy

datatype BoxFlavor = FlavorFull | FlavorLight

record ModelBaseCapabilities =
  model :: FreeboxModel
  wifi6ghz :: bool
  wifi7 :: bool
  vmSupport :: VmSupport
  maxVms :: nat
  maxVmRam :: nat
  temperatureType :: TemperatureType
  temperatureFields :: "string list"
  hasInternalStorage :: bool
  maxEthernetSpeed :: nat
  maxDownloadSpeed :: nat
  maxUploadSpeed :: nat

record FreeboxCapabilities = ModelBaseCapabilities +
  modelName :: string
  boxFlavor :: BoxFlavor

fun MODEL_CAPABILITIES :: "FreeboxModel \<Rightarrow> ModelBaseCapabilities" where
  "MODEL_CAPABILITIES Ultra =
     \<lparr>model = Ultra, wifi6ghz = True, wifi7 = True, vmSupport = VmFull, maxVms = 10,
      maxVmRam = 16, temperatureType = QuadCore,
      temperatureFields = [''temp_cpu0'', ''temp_cpu1'', ''temp_cpu2'', ''temp_cpu3''],
      hasInternalStorage = False, maxEthernetSpeed = 10000, maxDownloadSpeed = 8000,
      maxUploadSpeed = 8000\<rparr>"
| "MODEL_CAPABILITIES Delta =
     \<lparr>model = Delta, wifi6ghz = True, wifi7 = False, vmSupport = VmLimited, maxVms = 3,
      maxVmRam = 16, temperatureType = Legacy,
      temperatureFields = [''temp_cpum'', ''temp_sw'', ''temp_cpub''],
      hasInternalStorage = True, maxEthernetSpeed = 10000, maxDownloadSpeed = 8000,
      maxUploadSpeed = 700\<rparr>"
| "MODEL_CAPABILITIES Pop =
     \<lparr>model = Pop, wifi6ghz = False, wifi7 = True, vmSupport = VmNone, maxVms = 0,
      maxVmRam = 0, temperatureType = Legacy,
      temperatureFields = [''temp_cpum'', ''temp_sw'', ''temp_cpub''],
      hasInternalStorage = False, maxEthernetSpeed = 2500, maxDownloadSpeed = 5000,
      maxUploadSpeed = 700\<rparr>"
| "MODEL_CAPABILITIES Revolution =
     \<lparr>model = Revolution, wifi6ghz = False, wifi7 = False, vmSupport = VmNone, maxVms = 0,
      maxVmRam = 0, temperatureType = Legacy,
      temperatureFields = [''temp_cpum'', ''temp_sw'', ''temp_cpub''],
      hasInternalStorage = True, maxEthernetSpeed = 1000, maxDownloadSpeed = 1000,
      maxUploadSpeed = 600\<rparr>"
| "MODEL_CAPABILITIES Unknown =
     \<lparr>model = Unknown, wifi6ghz = False, wifi7 = False, vmSupport = VmNone, maxVms = 0,
      maxVmRam = 0, temperatureType = Legacy,
      temperatureFields = [''temp_cpum'', ''temp_sw'', ''temp_cpub''],
      hasInternalStorage = False, maxEthernetSpeed = 1000, maxDownloadSpeed = 1000,
      maxUploadSpeed = 600\<rparr>"

text \<open>
  The fourth test of the source names the marker \<^verbatim>\<open>r\<close>, the bytes
  \<^verbatim>\<open>E2 88 9A C2 A9\<close>, \<^verbatim>\<open>volution\<close>; the bytes are kept as the file has them.
\<close>

definition revolution_accented :: string where
  "revolution_accented =
     ''r'' @ [char_of (226::nat), char_of (136::nat), char_of (154::nat),
              char_of (194::nat), char_of (169::nat)] @ ''volution''"

definition detectModelFromName :: "string \<Rightarrow> FreeboxModel" where
  "detectModelFromName name =
     (let lower = toLowerCase name in
      if includesStr lower ''v9'' \<or> includesStr lower ''ultra'' then Ultra
      else if includesStr lower ''pop'' then Pop
      else if includesStr lower ''v8'' \<or> includesStr lower ''delta'' \<or> includesStr lower ''fbxgw8''
        then Delta
      else if includesStr lower ''v6'' \<or> includesStr lower ''revolution''
              \<or> includesStr lower revolution_accented \<or> includesStr lower ''fbxgw1''
        then Revolution
      else if includesStr lower ''v7'' \<or> includesStr lower ''mini'' \<or> includesStr lower ''fbxgw7''
        then Revolution
      else Unknown)"

definition buildCapabilities :: "FreeboxModel \<Rightarrow> string \<Rightarrow> BoxFlavor \<Rightarrow> FreeboxCapabilities" where
  "buildCapabilities m name flavor =
     ModelBaseCapabilities.extend
       ((MODEL_CAPABILITIES m)\<lparr>hasInternalStorage := (flavor = FlavorFull)\<rparr>)
       (FreeboxCapabilities.fields name flavor)"

section \<open>JSON values\<close>

text \<open>
  What \<open>response.json()\<close> returns for the version call is not checked by the source;
  it is modelled as an untyped JSON value. A number is kept as an integer: the code only
  tests it for truthiness. An object is the list of its properties, each name once.
\<close>

datatype json =
    JNull | JBool bool | JNum int | JStr string | JArr "json list" | JObj "(string \<times> json) list"

fun truthy :: "json \<Rightarrow> bool" where
  "truthy JNull = False"
| "truthy (JBool b) = b"
| "truthy (JNum n) = (n \<noteq> 0)"
| "truthy (JStr s) = (s \<noteq> [])"
| "truthy (JArr xs) = True"
| "truthy (JObj kvs) = True"

text \<open>Reading a named property of a value that is not null; \<open>None\<close> is undefined.\<close>

fun getField :: "json \<Rightarrow> string \<Rightarrow> json option" where
  "getField (JObj kvs) k = map_of kvs k"
| "getField v k = None"

text \<open>\<open>a || b\<close> on optional values: the first truthy one.\<close>

definition orElse :: "json option \<Rightarrow> json \<Rightarrow> json" where
  "orElse a b = (case a of Some v \<Rightarrow> if truthy v then v else b | None \<Rightarrow> b)"

text \<open>
  The same on strings, \<open>response.msg || 'text'\<close>, and the truthiness of a string that
  may be null: the empty string is falsy.
\<close>

definition strOr :: "string option \<Rightarrow> string \<Rightarrow> string" where
  "strOr a d = (case a of Some s \<Rightarrow> if s \<noteq> [] then s else d | None \<Rightarrow> d)"

definition truthyStr :: "string option \<Rightarrow> bool" where
  "truthyStr a = (case a of Some s \<Rightarrow> s \<noteq> [] | None \<Rightarrow> False)"

text \<open>A number inside a template literal: its decimal digits, with a sign when negative.\<close>

definition digitChar :: "nat \<Rightarrow> char" where
  "digitChar d = char_of (of_char CHR ''0'' + d)"

fun digitsOnto :: "nat \<Rightarrow> string \<Rightarrow> string" where
  "digitsOnto n rest =
     (if 10 \<le> n then digitsOnto (n div 10) (digitChar (n mod 10) # rest)
      else digitChar n # rest)"

declare digitsOnto.simps [simp del]

definition showNat :: "nat \<Rightarrow> string" where
  "showNat n = digitsOnto n []"


section \<open>Configuration (server/config.ts)\<close>

text \<open>
  The fields of \<open>config.freebox\<close> that are read from the environment are the fields of
  the record; the fixed ones are constants. A path is the list of its segments from the
  root; \<open>tokenFile\<close> is absolute or relative (\<open>path.isAbsolute\<close>).
\<close>

type_synonym path = "string list"

datatype tokenFilePath = Absolute path | Relative "string list"

record freebox =
  url :: string
  appId :: string
  appName :: string
  appVersion :: string
  deviceName :: string
  tokenFile :: tokenFilePath

definition apiVersion :: string where
  "apiVersion = ''v4''"

definition requestTimeout :: nat where
  "requestTimeout = 10000"

definition API_VERSION :: string where
  "API_VERSION = ''/api_version''"

definition LOGIN :: string where
  "LOGIN = ''/login/''"

definition LOGIN_AUTHORIZE :: string where
  "LOGIN_AUTHORIZE = ''/login/authorize/''"

definition LOGIN_SESSION :: string where
  "LOGIN_SESSION = ''/login/session/''"

definition LOGIN_LOGOUT :: string where
  "LOGIN_LOGOUT = ''/login/logout/''"

section \<open>Errors, files and the network\<close>

text \<open>A thrown value: an \<open>Error\<close> with its message, or something that is no \<open>Error\<close>.\<close>

datatype thrown = JsError string | NonError

subsection \<open>Paths and the file system (node:path, node:fs)\<close>

fun normalize :: "string list \<Rightarrow> string list \<Rightarrow> path" where
  "normalize acc [] = rev acc"
| "normalize acc (s # ss) =
     (if s = [] \<or> s = ''.'' then normalize acc ss
      else if s = ''..'' then normalize (tl acc) ss
      else normalize (s # acc) ss)"

definition path_join :: "path \<Rightarrow> string list \<Rightarrow> path" where
  "path_join base rel = normalize [] (base @ rel)"

definition dirname :: "path \<Rightarrow> path" where
  "dirname p = butlast p"

text \<open>
  The token file is declared to hold a \<open>TokenData\<close> document. \<open>JsonOf d\<close> is a text
  that \<open>JSON.parse\<close> reads as the document \<open>d\<close>, among them the text
  \<open>JSON.stringify\<close> writes for \<open>d\<close>; \<open>NotJson\<close> is a text on which \<open>JSON.parse\<close>,
  or the read of the property \<open>appToken\<close> that follows it, throws. Documents that
  parse but are not of the declared type are not modelled.
\<close>

datatype TokenData =
  TokenData (td_appToken: string) (td_trackId: "int option") (td_status: "string option")

datatype file_text = JsonOf TokenData | NotJson

datatype node = Dir | File file_text

type_synonym filesystem = "path \<Rightarrow> node option"

definition lookup :: "filesystem \<Rightarrow> path \<Rightarrow> node option" where
  "lookup fs p = (if p = [] then Some Dir else fs p)"

definition existsSync :: "filesystem \<Rightarrow> path \<Rightarrow> bool" where
  "existsSync fs p = (lookup fs p \<noteq> None)"

definition isFile :: "filesystem \<Rightarrow> path \<Rightarrow> bool" where
  "isFile fs p = (case lookup fs p of Some (File t) \<Rightarrow> True | Some Dir \<Rightarrow> False | None \<Rightarrow> False)"

text \<open>The path itself and the directories above it, the root left out.\<close>

definition chain :: "path \<Rightarrow> path list" where
  "chain p = map (\<lambda>n. take n p) [1 ..< Suc (length p)]"

text \<open>\<open>fs.mkdirSync(p, { recursive: true })\<close>: it throws when a file is in the way.\<close>

definition mkdirSync :: "filesystem \<Rightarrow> path \<Rightarrow> thrown + filesystem" where
  "mkdirSync fs p =
     (if list_ex (isFile fs) (chain p) then Inl (JsError ''EEXIST'')
      else Inr (\<lambda>q. if q \<in> set (chain p) then Some Dir else fs q))"

definition writeFileSync :: "filesystem \<Rightarrow> path \<Rightarrow> file_text \<Rightarrow> thrown + filesystem" where
  "writeFileSync fs p t =
     (if lookup fs (dirname p) = Some Dir \<and> lookup fs p \<noteq> Some Dir
      then Inr (fs(p := Some (File t)))
      else Inl (JsError ''ENOENT''))"



definition JSON_stringify :: "TokenData \<Rightarrow> file_text" where
  "JSON_stringify d = JsonOf d"

subsection \<open>HTTP (fetch)\<close>

text \<open>
  A call is what \<open>fetch\<close> is given. The appliance is a function from the call to what
  \<open>fetch\<close> does with it: the promise rejects (appliance unreachable, or the abort sent
  after \<open>requestTimeout\<close>), or it resolves to a response. \<open>bodyJson\<close> is what
  \<open>response.json()\<close> gives: \<open>Inl m\<close> when it throws a \<open>SyntaxError\<close> with message \<open>m\<close>.
\<close>

record http_call =
  httpMethod :: string
  target :: string
  headers :: "(string \<times> string) list"
  body :: "json option"

record 'a response =
  status :: nat
  contentType :: "string option"
  bodyText :: string
  bodyJson :: "string + 'a"

datatype 'a fetched = Rejected thrown | Resolved "'a response"

section \<open>The API service (server/services/freeboxApi.ts)\<close>

text \<open>
  The fields of the class. A value of the declared type \<open>string | null\<close> is an option.
  Each operation takes the state and returns what the call gives (\<open>Inl\<close> when it
  throws), the state it leaves and the calls it has made on the network, in order.
\<close>

record FreeboxApiService =
  baseUrl :: string
  appToken :: "string option"
  sessionToken :: "string option"
  challenge :: "string option"
  permissions :: "(string \<times> bool) list"

record 'a FreeboxApiResponse =
  success :: bool
  result :: "'a option"
  error_code :: "string option"
  msg :: "string option"

datatype authorize_result = AuthorizeResult (app_token: string) (track_id: int)

datatype reg_status = StatusUnknown | Pending | Timeout | Granted | Denied

datatype track_result = TrackResult (tr_status: reg_status) (tr_challenge: "string option")

datatype login_result = LoginResult (logged_in: bool) (lr_challenge: string)

datatype session_result =
  SessionResult (session_token: string) (sr_challenge: string)
    (sr_permissions: "(string \<times> bool) list")

datatype SessionData =
  SessionData (sd_sessionToken: string) (sd_challenge: string)
    (sd_permissions: "(string \<times> bool) list")

definition getTokenPath :: "freebox \<Rightarrow> path \<Rightarrow> path" where
  "getTokenPath cfg cwd =
     (case tokenFile cfg of Absolute p \<Rightarrow> p | Relative r \<Rightarrow> path_join cwd r)"



definition saveToken ::
  "FreeboxApiService \<Rightarrow> freebox \<Rightarrow> path \<Rightarrow> filesystem \<Rightarrow> string
     \<Rightarrow> (thrown + unit) \<times> FreeboxApiService \<times> filesystem" where
  "saveToken svc cfg cwd fs tok =
     (let tokenPath = getTokenPath cfg cwd;
          tokenDir = dirname tokenPath
      in case (if \<not> existsSync fs tokenDir then mkdirSync fs tokenDir else Inr fs) of
           Inl e \<Rightarrow> (Inl e, svc, fs)
         | Inr fs1 \<Rightarrow>
             (case writeFileSync fs1 tokenPath (JSON_stringify (TokenData tok None None)) of
                Inl e \<Rightarrow> (Inl e, svc, fs1)
              | Inr fs2 \<Rightarrow> (Inr (), svc\<lparr>appToken := Some tok\<rparr>, fs2)))"

definition buildUrl :: "FreeboxApiService \<Rightarrow> string \<Rightarrow> string" where
  "buildUrl svc endpoint =
     (let version = (if startsWith endpoint ''/wifi'' then ''v2'' else apiVersion)
      in baseUrl svc @ ''/api/'' @ version @ endpoint)"

text \<open>The call that \<open>request\<close> hands to \<open>fetch\<close>.\<close>

definition requestCall ::
  "FreeboxApiService \<Rightarrow> string \<Rightarrow> string \<Rightarrow> json option \<Rightarrow> bool \<Rightarrow> http_call" where
  "requestCall svc meth endpoint b authenticated =
     \<lparr>httpMethod = meth,
      target = buildUrl svc endpoint,
      headers = (''Content-Type'', ''application/json'') #
        (case sessionToken svc of
           Some tok \<Rightarrow> if authenticated \<and> tok \<noteq> [] then [(''X-Fbx-App-Auth'', tok)] else []
         | None \<Rightarrow> []),
      body = (case b of Some v \<Rightarrow> if truthy v then Some v else None | None \<Rightarrow> None)\<rparr>"

definition invalid_response :: "nat \<Rightarrow> 'a FreeboxApiResponse" where
  "invalid_response st =
     \<lparr>success = False, result = None, error_code = Some ''invalid_response'',
      msg = Some (''API returned non-JSON response ('' @ showNat st @ '')'')\<rparr>"

definition request_failed :: "thrown \<Rightarrow> 'a FreeboxApiResponse" where
  "request_failed e =
     \<lparr>success = False, result = None, error_code = Some ''request_failed'',
      msg = Some (case e of JsError m \<Rightarrow> m | NonError \<Rightarrow> ''Request failed'')\<rparr>"

text \<open>
  The test on the header of a response, \<open>contentType && contentType.includes('application/json')\<close>;
  the source tests its negation.
\<close>

definition declaresJson :: "'a response \<Rightarrow> bool" where
  "declaresJson r =
     (case contentType r of
        Some ct \<Rightarrow> ct \<noteq> [] \<and> includesStr ct ''application/json''
      | None \<Rightarrow> False)"

text \<open>The body of the \<open>try\<close> block of \<open>request\<close>, from the outcome of \<open>fetch\<close> on.\<close>

definition requestTry :: "'a FreeboxApiResponse fetched \<Rightarrow> thrown + 'a FreeboxApiResponse" where
  "requestTry f =
     (case f of
        Rejected e \<Rightarrow> Inl e
      | Resolved r \<Rightarrow>
          (if \<not> declaresJson r
           then Inr (invalid_response (status r))
           else (case bodyJson r of
                   Inl m \<Rightarrow> Inl (JsError m)
                 | Inr data \<Rightarrow> Inr data)))"

definition request ::
  "FreeboxApiService \<Rightarrow> string \<Rightarrow> string \<Rightarrow> json option \<Rightarrow> bool
     \<Rightarrow> (http_call \<Rightarrow> 'a FreeboxApiResponse fetched)
     \<Rightarrow> (thrown + 'a FreeboxApiResponse) \<times> http_call list" where
  "request svc meth endpoint b authenticated net =
     (let call = requestCall svc meth endpoint b authenticated
      in (case requestTry (net call) of
            Inl e \<Rightarrow> Inr (request_failed e)
          | Inr data \<Rightarrow> Inr data,
          [call]))"

text \<open>
  \<open>crypto.createHmac('sha1', key).update(text).digest('hex')\<close> belongs to the runtime;
  it is the parameter \<open>hmac\<close>, a function of the key and the text.
\<close>

definition computePassword ::
  "(string \<Rightarrow> string \<Rightarrow> string) \<Rightarrow> FreeboxApiService \<Rightarrow> string \<Rightarrow> thrown + string" where
  "computePassword hmac svc chal =
     (case appToken svc of
        None \<Rightarrow> Inl (JsError ''No app_token available'')
      | Some tok \<Rightarrow>
          if tok = [] then Inl (JsError ''No app_token available'')
          else Inr (hmac tok chal))"

text \<open>
  The test \<open>!response.success || !response.result\<close> made on every answer; a result of
  the declared type is an object, so it is falsy only when absent.
\<close>

definition failed :: "'a FreeboxApiResponse \<Rightarrow> bool" where
  "failed r = (\<not> success r \<or> result r = None)"

definition registerBody :: "freebox \<Rightarrow> json" where
  "registerBody cfg =
     JObj [(''app_id'', JStr (appId cfg)), (''app_name'', JStr (appName cfg)),
           (''app_version'', JStr (appVersion cfg)), (''device_name'', JStr (deviceName cfg))]"

definition sessionBody :: "freebox \<Rightarrow> string \<Rightarrow> json" where
  "sessionBody cfg password =
     JObj [(''app_id'', JStr (appId cfg)), (''app_version'', JStr (appVersion cfg)),
           (''password'', JStr password)]"

definition register ::
  "FreeboxApiService \<Rightarrow> freebox \<Rightarrow> path \<Rightarrow> filesystem
     \<Rightarrow> (http_call \<Rightarrow> authorize_result FreeboxApiResponse fetched)
     \<Rightarrow> (thrown + int \<times> string) \<times> FreeboxApiService \<times> filesystem \<times> http_call list" where
  "register svc cfg cwd fs net =
     (case request svc ''POST'' LOGIN_AUTHORIZE (Some (registerBody cfg)) False net of
        (Inl e, tr) \<Rightarrow> (Inl e, svc, fs, tr)
      | (Inr r, tr) \<Rightarrow>
          (case result r of
             None \<Rightarrow> (Inl (JsError (strOr (msg r) ''Registration failed'')), svc, fs, tr)
           | Some res \<Rightarrow>
               if \<not> success r
               then (Inl (JsError (strOr (msg r) ''Registration failed'')), svc, fs, tr)
               else (case saveToken svc cfg cwd fs (app_token res) of
                       (Inl e, svc1, fs1) \<Rightarrow> (Inl e, svc1, fs1, tr)
                     | (Inr u, svc1, fs1) \<Rightarrow>
                         (Inr (track_id res, app_token res), svc1, fs1, tr))))"


definition getChallenge ::
  "FreeboxApiService \<Rightarrow> (http_call \<Rightarrow> login_result FreeboxApiResponse fetched)
     \<Rightarrow> (thrown + string) \<times> FreeboxApiService \<times> http_call list" where
  "getChallenge svc net =
     (case request svc ''GET'' LOGIN None False net of
        (Inl e, tr) \<Rightarrow> (Inl e, svc, tr)
      | (Inr r, tr) \<Rightarrow>
          (case result r of
             None \<Rightarrow> (Inl (JsError (strOr (msg r) ''Failed to get challenge'')), svc, tr)
           | Some res \<Rightarrow>
               if \<not> success r
               then (Inl (JsError (strOr (msg r) ''Failed to get challenge'')), svc, tr)
               else (Inr (lr_challenge res), svc\<lparr>challenge := Some (lr_challenge res)\<rparr>, tr)))"

text \<open>The part of \<open>login\<close> that follows the fetch of a fresh challenge.\<close>

definition openSession ::
  "(string \<Rightarrow> string \<Rightarrow> string) \<Rightarrow> FreeboxApiService \<Rightarrow> freebox \<Rightarrow> string
     \<Rightarrow> (http_call \<Rightarrow> session_result FreeboxApiResponse fetched)
     \<Rightarrow> (thrown + SessionData) \<times> FreeboxApiService \<times> http_call list" where
  "openSession hmac svc cfg chal net =
     (case computePassword hmac svc chal of
        Inl e \<Rightarrow> (Inl e, svc, [])
      | Inr password \<Rightarrow>
          (case request svc ''POST'' LOGIN_SESSION (Some (sessionBody cfg password)) False
                  net of
             (Inl e, tr) \<Rightarrow> (Inl e, svc, tr)
           | (Inr r, tr) \<Rightarrow>
               (case result r of
                  None \<Rightarrow>
                    (Inl (JsError (strOr (msg r) (strOr (error_code r) ''Login failed''))),
                     svc, tr)
                | Some res \<Rightarrow>
                    if \<not> success r
                    then (Inl (JsError (strOr (msg r) (strOr (error_code r) ''Login failed''))),
                          svc, tr)
                    else (Inr (SessionData (session_token res) (sr_challenge res)
                                 (sr_permissions res)),
                          svc\<lparr>sessionToken := Some (session_token res),
                              challenge := Some (sr_challenge res),
                              permissions := sr_permissions res\<rparr>,
                          tr))))"

definition login ::
  "(string \<Rightarrow> string \<Rightarrow> string) \<Rightarrow> FreeboxApiService \<Rightarrow> freebox
     \<Rightarrow> (http_call \<Rightarrow> login_result FreeboxApiResponse fetched)
     \<Rightarrow> (http_call \<Rightarrow> session_result FreeboxApiResponse fetched)
     \<Rightarrow> (thrown + SessionData) \<times> FreeboxApiService \<times> http_call list" where
  "login hmac svc cfg netChallenge netSession =
     (if \<not> truthyStr (appToken svc)
      then (Inl (JsError ''No app_token available. Please register first.''), svc, [])
      else (case getChallenge svc netChallenge of
              (Inl e, svc1, tr1) \<Rightarrow> (Inl e, svc1, tr1)
            | (Inr c, svc1, tr1) \<Rightarrow>
                (case challenge svc1 of
                   None \<Rightarrow> (Inl (JsError ''No challenge available''), svc1, tr1)
                 | Some chal \<Rightarrow>
                     if chal = [] then (Inl (JsError ''No challenge available''), svc1, tr1)
                     else (case openSession hmac svc1 cfg chal netSession of
                             (r, svc2, tr2) \<Rightarrow> (r, svc2, tr1 @ tr2)))))"

definition logout ::
  "FreeboxApiService \<Rightarrow> (http_call \<Rightarrow> unit FreeboxApiResponse fetched)
     \<Rightarrow> (thrown + unit) \<times> FreeboxApiService \<times> http_call list" where
  "logout svc net =
     (if truthyStr (sessionToken svc)
      then (case request svc ''POST'' LOGIN_LOGOUT None True net of
              (Inl e, tr) \<Rightarrow> (Inl e, svc, tr)
            | (Inr r, tr) \<Rightarrow> (Inr (), svc\<lparr>sessionToken := None\<rparr>, tr))
      else (Inr (), svc, []))"

definition checkSession ::
  "FreeboxApiService \<Rightarrow> (http_call \<Rightarrow> login_result FreeboxApiResponse fetched)
     \<Rightarrow> bool \<times> http_call list" where
  "checkSession svc net =
     (case request svc ''GET'' LOGIN None True net of
        (Inl e, tr) \<Rightarrow> (False, tr)
      | (Inr r, tr) \<Rightarrow>
          (success r \<and> (case result r of Some res \<Rightarrow> logged_in res | None \<Rightarrow> False), tr))"


definition isLoggedIn :: "FreeboxApiService \<Rightarrow> bool" where
  "isLoggedIn svc = (sessionToken svc \<noteq> None)"

definition getPermissions :: "FreeboxApiService \<Rightarrow> (string \<times> bool) list" where
  "getPermissions svc = permissions svc"

definition versionCall :: "FreeboxApiService \<Rightarrow> http_call" where
  "versionCall svc =
     \<lparr>httpMethod = ''GET'', target = baseUrl svc @ API_VERSION, headers = [], body = None\<rparr>"

definition getApiVersion ::
  "FreeboxApiService \<Rightarrow> (http_call \<Rightarrow> json fetched) \<Rightarrow> json FreeboxApiResponse \<times> http_call list" where
  "getApiVersion svc net =
     (let call = versionCall svc;
          failure = \<lparr>success = False, result = None, error_code = None,
                     msg = Some ''Failed to get API version''\<rparr>
      in (case net call of
            Rejected e \<Rightarrow> failure
          | Resolved r \<Rightarrow>
              (case bodyJson r of
                 Inl m \<Rightarrow> failure
               | Inr data \<Rightarrow>
                   \<lparr>success = True, result = Some data, error_code = None, msg = None\<rparr>),
          [call]))"

section \<open>Model detection (server/services/modelDetection.ts)\<close>

text \<open>
  What a detection returns and caches. It is a capabilities record, but for the mock
  setting \<open>constructor\<close> or \<open>__proto__\<close>: \<open>MOCK_MODEL_NAMES\<close> and \<open>MODEL_CAPABILITIES\<close>
  are plain objects, a lookup of either name yields the member every object inherits,
  and \<open>buildCapabilities\<close>, spreading a member that has no enumerable property of its
  own, builds an object with \<open>modelName\<close> (the \<open>name\<close> of the member, which may be
  undefined), \<open>boxFlavor\<close> undefined, \<open>hasInternalStorage\<close> false and no other field.
  \<open>Untyped n\<close> is that object, \<open>n\<close> its \<open>modelName\<close>.
\<close>

datatype detected = Capabilities FreeboxCapabilities | Untyped "string option"

text \<open>
  \<open>detectionPromise\<close> holds, while a detection is in flight, the value its promise
  settles to. \<open>Date.now()\<close> is a parameter of each operation that reads the clock:
  \<open>now\<close> where \<open>detectModel\<close> tests the age of the cache, \<open>later\<close> where the
  detection stamps its result.
\<close>

record ModelDetectionService =
  capabilities :: "detected option"
  detectionPromise :: "detected option"
  lastDetectionTime :: int

definition CACHE_DURATION :: int where
  "CACHE_DURATION = 5 * 60 * 1000"

text \<open>
  The own keys of \<open>MOCK_MODEL_NAMES\<close> and of \<open>MODEL_CAPABILITIES\<close> are the five model
  names: \<open>modelOfKey\<close> reads a key as the model it names.
\<close>

definition modelOfKey :: "string \<Rightarrow> FreeboxModel option" where
  "modelOfKey k =
     (if k = ''ultra'' then Some Ultra
      else if k = ''delta'' then Some Delta
      else if k = ''pop'' then Some Pop
      else if k = ''revolution'' then Some Revolution
      else if k = ''unknown'' then Some Unknown
      else None)"

fun MOCK_MODEL_NAMES :: "FreeboxModel \<Rightarrow> string \<times> BoxFlavor" where
  "MOCK_MODEL_NAMES Ultra = (''Freebox v9 (r1)'', FlavorFull)"
| "MOCK_MODEL_NAMES Delta = (''Freebox v8 (Delta)'', FlavorFull)"
| "MOCK_MODEL_NAMES Pop = (''Freebox Pop'', FlavorLight)"
| "MOCK_MODEL_NAMES Revolution = (''Freebox v6 (Revolution)'', FlavorFull)"
| "MOCK_MODEL_NAMES Unknown = (''Freebox'', FlavorLight)"

text \<open>
  The names a lookup finds on \<open>Object.prototype\<close>. The environment variable is lowered
  before the lookup, so of all inherited names only the two without a capital letter can
  be asked for: \<open>constructor\<close>, the function \<open>Object\<close>, whose \<open>name\<close> is \<open>Object\<close>,
  and \<open>__proto__\<close>, the prototype itself, which has no \<open>name\<close>. Both are truthy. The
  result is the \<open>name\<close> of the member found.
\<close>

definition inheritedMember :: "string \<Rightarrow> string option option" where
  "inheritedMember k =
     (if k = ''constructor'' then Some (Some ''Object'')
      else if k = ''__proto__'' then Some None
      else None)"

text \<open>What \<open>MOCK_MODEL_NAMES[mockModel]\<close> finds: an entry of the table, or an inherited member.\<close>

datatype mockEntry = Own FreeboxModel | Inherited "string option"

definition buildDefaultCapabilities ::
  "ModelDetectionService \<Rightarrow> int \<Rightarrow> FreeboxCapabilities \<times> ModelDetectionService" where
  "buildDefaultCapabilities det now =
     (let defaults = buildCapabilities Unknown ''Freebox'' FlavorLight
      in (defaults,
          det\<lparr>capabilities := Some (Capabilities defaults), lastDetectionTime := now\<rparr>))"

text \<open>
  \<open>detectModelFromName\<close> applied to whatever the version document holds: a value that is
  no string has no method \<open>toLowerCase\<close>, and the call throws a \<open>TypeError\<close>.
\<close>

definition detectModelFromValue :: "json \<Rightarrow> thrown + FreeboxModel \<times> string" where
  "detectModelFromValue v =
     (case v of
        JStr name \<Rightarrow> Inr (detectModelFromName name, name)
      | JNull \<Rightarrow> Inl (JsError ''modelName.toLowerCase is not a function'')
      | JBool b \<Rightarrow> Inl (JsError ''modelName.toLowerCase is not a function'')
      | JNum n \<Rightarrow> Inl (JsError ''modelName.toLowerCase is not a function'')
      | JArr xs \<Rightarrow> Inl (JsError ''modelName.toLowerCase is not a function'')
      | JObj kvs \<Rightarrow> Inl (JsError ''modelName.toLowerCase is not a function''))"

text \<open>
  The model name read from the version document:
  \<open>box_model_name || box_model || device_name || 'Unknown'\<close>.
\<close>

definition modelNameOf :: "json \<Rightarrow> json" where
  "modelNameOf versionData =
     orElse (getField versionData ''box_model_name'')
       (orElse (getField versionData ''box_model'')
          (orElse (getField versionData ''device_name'') (JStr ''Unknown'')))"

text \<open>
  The test \<open>mockModel && MOCK_MODEL_NAMES[mockModel]\<close> on the lowered environment
  variable: what the lookup finds, if the test holds.
\<close>

definition mockSelected :: "string option \<Rightarrow> mockEntry option" where
  "mockSelected MOCK_FREEBOX_MODEL =
     (case MOCK_FREEBOX_MODEL of
        Some v \<Rightarrow>
          if toLowerCase v \<noteq> [] then
            (case modelOfKey (toLowerCase v) of
               Some m \<Rightarrow> Some (Own m)
             | None \<Rightarrow>
                 (case inheritedMember (toLowerCase v) of
                    Some n \<Rightarrow> Some (Inherited n)
                  | None \<Rightarrow> None))
          else None
      | None \<Rightarrow> None)"

text \<open>The \<open>try\<close> block of \<open>_performDetection\<close>, from the answer of the version call on.\<close>

definition detectionTry ::
  "ModelDetectionService \<Rightarrow> json FreeboxApiResponse \<Rightarrow> int
     \<Rightarrow> thrown + FreeboxCapabilities \<times> ModelDetectionService" where
  "detectionTry det apiVersionResponse now =
     (case result apiVersionResponse of
        None \<Rightarrow> Inr (buildDefaultCapabilities det now)
      | Some versionData \<Rightarrow>
          if \<not> success apiVersionResponse \<or> \<not> truthy versionData
          then Inr (buildDefaultCapabilities det now)
          else
            (let name = modelNameOf versionData;
                 flavor = (if getField versionData ''box_flavor'' = Some (JStr ''full'')
                           then FlavorFull else FlavorLight)
             in case detectModelFromValue name of
                  Inl e \<Rightarrow> Inl e
                | Inr (m, nameStr) \<Rightarrow>
                    (let caps = buildCapabilities m nameStr flavor
                     in Inr (caps, det\<lparr>capabilities := Some (Capabilities caps),
                                         lastDetectionTime := now\<rparr>))))"

definition performDetection ::
  "ModelDetectionService \<Rightarrow> FreeboxApiService \<Rightarrow> string option \<Rightarrow> int
     \<Rightarrow> (http_call \<Rightarrow> json fetched)
     \<Rightarrow> (thrown + detected) \<times> ModelDetectionService \<times> http_call list" where
  "performDetection det api MOCK_FREEBOX_MODEL now net =
     (case mockSelected MOCK_FREEBOX_MODEL of
        Some (Own mockModel) \<Rightarrow>
          (let mock = MOCK_MODEL_NAMES mockModel;
               caps = buildCapabilities mockModel (fst mock) (snd mock)
           in (Inr (Capabilities caps),
               det\<lparr>capabilities := Some (Capabilities caps), lastDetectionTime := now\<rparr>, []))
      | Some (Inherited name) \<Rightarrow>
          (Inr (Untyped name),
           det\<lparr>capabilities := Some (Untyped name), lastDetectionTime := now\<rparr>, [])
      | None \<Rightarrow>
          (case getApiVersion api net of
             (apiVersionResponse, tr) \<Rightarrow>
               (case detectionTry det apiVersionResponse now of
                  Inr (caps, det1) \<Rightarrow> (Inr (Capabilities caps), det1, tr)
                | Inl e \<Rightarrow>
                    (case buildDefaultCapabilities det now of
                       (defaults, det1) \<Rightarrow> (Inr (Capabilities defaults), det1, tr)))))"

text \<open>
  The test that opens \<open>detectModel\<close>,
  \<open>this.capabilities && Date.now() - this.lastDetectionTime < this.CACHE_DURATION\<close>: the
  cached value when it is still fresh.
\<close>

definition freshCache :: "ModelDetectionService \<Rightarrow> int \<Rightarrow> detected option" where
  "freshCache det now =
     (case capabilities det of
        Some cached \<Rightarrow>
          if now - lastDetectionTime det < CACHE_DURATION then Some cached else None
      | None \<Rightarrow> None)"

definition detectModel ::
  "ModelDetectionService \<Rightarrow> FreeboxApiService \<Rightarrow> string option \<Rightarrow> int \<Rightarrow> int
     \<Rightarrow> (http_call \<Rightarrow> json fetched)
     \<Rightarrow> (thrown + detected) \<times> ModelDetectionService \<times> http_call list" where
  "detectModel det api MOCK_FREEBOX_MODEL now later net =
     (case freshCache det now of
        Some cached \<Rightarrow> (Inr cached, det, [])
      | None \<Rightarrow>
          (case detectionPromise det of
             Some pending \<Rightarrow> (Inr pending, det, [])
           | None \<Rightarrow>
               (case performDetection det api MOCK_FREEBOX_MODEL later net of
                  (r, det1, tr) \<Rightarrow> (r, det1\<lparr>detectionPromise := None\<rparr>, tr))))"

definition clearCache :: "ModelDetectionService \<Rightarrow> ModelDetectionService" where
  "clearCache det = det\<lparr>capabilities := None, detectionPromise := None, lastDetectionTime := 0\<rparr>"

definition refreshCapabilities ::
  "ModelDetectionService \<Rightarrow> FreeboxApiService \<Rightarrow> string option \<Rightarrow> int \<Rightarrow> int
     \<Rightarrow> (http_call \<Rightarrow> json fetched)
     \<Rightarrow> (thrown + detected) \<times> ModelDetectionService \<times> http_call list" where
  "refreshCapabilities det api MOCK_FREEBOX_MODEL now later net =
     detectModel (clearCache det) api MOCK_FREEBOX_MODEL now later net"

section \<open>Markers and generations of the hardware families\<close>

text \<open>
  The substrings by which a family is recognised, and the order of the families by
  generation: the Ultra (v9) is the newest, then the Pop, then the Delta (v8), then the
  Revolution and Mini 4K (v6 and v7), which classify alike.
\<close>

fun markers :: "FreeboxModel \<Rightarrow> string list" where
  "markers Ultra = [''v9'', ''ultra'']"
| "markers Pop = [''pop'']"
| "markers Delta = [''v8'', ''delta'', ''fbxgw8'']"
| "markers Revolution =
     [''v6'', ''revolution'', revolution_accented, ''fbxgw1'', ''v7'', ''mini'', ''fbxgw7'']"
| "markers Unknown = []"

definition has_marker :: "FreeboxModel \<Rightarrow> string \<Rightarrow> bool" where
  "has_marker f lower = list_ex (includesStr lower) (markers f)"

fun recency :: "FreeboxModel \<Rightarrow> nat" where
  "recency Ultra = 4"
| "recency Pop = 3"
| "recency Delta = 2"
| "recency Revolution = 1"
| "recency Unknown = 0"

section \<open>Failures of the detection\<close>

text \<open>
  What the claims call a failure of the detection, said of the outcome of the version
  call: the call is rejected (appliance unreachable, timeout), its body is no JSON, the
  document is empty (falsy), or the model name it holds is no string, on which the
  classification throws.
\<close>

definition isString :: "json \<Rightarrow> bool" where
  "isString v = (case v of JStr s \<Rightarrow> True | JNull \<Rightarrow> False | JBool b \<Rightarrow> False
                 | JNum n \<Rightarrow> False | JArr xs \<Rightarrow> False | JObj kvs \<Rightarrow> False)"

definition detectionFails :: "json fetched \<Rightarrow> bool" where
  "detectionFails f =
     (case f of
        Rejected e \<Rightarrow> True
      | Resolved r \<Rightarrow>
          (case bodyJson r of
             Inl m \<Rightarrow> True
           | Inr d \<Rightarrow> \<not> truthy d \<or> \<not> isString (modelNameOf d)))"

section \<open>Example states and appliances\<close>

text \<open>
  Concrete inputs at which the theorems below are evaluated. \<open>concatHmac\<close> stands in
  for the digest function where a concrete one is needed.
\<close>

definition exampleConfig :: freebox where
  "exampleConfig =
     \<lparr>url = ''https://mafreebox.freebox.fr'', appId = ''fr.freeboxos.dashboard'',
      appName = ''Freebox Dashboard'', appVersion = ''1.0.0'',
      deviceName = ''Dashboard Web App'', tokenFile = Absolute [''data'', ''.freebox_token'']\<rparr>"



definition unregistered :: FreeboxApiService where
  "unregistered =
     \<lparr>baseUrl = ''https://mafreebox.freebox.fr'', appToken = None, sessionToken = None,
      challenge = None, permissions = []\<rparr>"

definition registered :: FreeboxApiService where
  "registered = unregistered\<lparr>appToken := Some ''secret''\<rparr>"

definition loggedIn :: FreeboxApiService where
  "loggedIn = registered\<lparr>sessionToken := Some ''s1'', challenge := Some ''c1'',
                         permissions := [(''settings'', True)]\<rparr>"

definition unreachable :: "http_call \<Rightarrow> 'a fetched" where
  "unreachable call = Rejected (JsError ''fetch failed'')"

definition htmlPage :: "http_call \<Rightarrow> 'a fetched" where
  "htmlPage call =
     Resolved \<lparr>status = 502, contentType = Some ''text/html'', bodyText = ''<html></html>'',
               bodyJson = Inl ''Unexpected token <''\<rparr>"

definition noContentType :: "http_call \<Rightarrow> 'a fetched" where
  "noContentType call =
     Resolved \<lparr>status = 200, contentType = None, bodyText = ''ok'',
               bodyJson = Inl ''Unexpected token o''\<rparr>"

definition brokenJson :: "http_call \<Rightarrow> 'a fetched" where
  "brokenJson call =
     Resolved \<lparr>status = 200, contentType = Some ''application/json'', bodyText = ''{'',
               bodyJson = Inl ''Unexpected end of JSON input''\<rparr>"

definition answers :: "'a \<Rightarrow> http_call \<Rightarrow> 'a fetched" where
  "answers doc call =
     Resolved \<lparr>status = 200, contentType = Some ''application/json; charset=utf-8'',
               bodyText = [], bodyJson = Inr doc\<rparr>"

definition ok :: "'a \<Rightarrow> 'a FreeboxApiResponse" where
  "ok res = \<lparr>success = True, result = Some res, error_code = None, msg = None\<rparr>"


definition concatHmac :: "string \<Rightarrow> string \<Rightarrow> string" where
  "concatHmac key msgText = key @ '':'' @ msgText"

definition coldCache :: ModelDetectionService where
  "coldCache = \<lparr>capabilities = None, detectionPromise = None, lastDetectionTime = 0\<rparr>"

section \<open>Classification of the model name\<close>

lemma detect_at_least:
  "has_marker g (toLowerCase s) \<Longrightarrow> recency g \<le> recency (detectModelFromName s)"
  by (cases g) (auto simp: detectModelFromName_def Let_def has_marker_def)

lemma detect_has_marker:
  "detectModelFromName s \<noteq> Unknown \<Longrightarrow> has_marker (detectModelFromName s) (toLowerCase s)"
  by (auto simp: detectModelFromName_def Let_def has_marker_def split: if_splits)

lemma recency_inj: "recency f = recency g \<Longrightarrow> f = g"
  by (cases f; cases g; simp)

text \<open>
  Claim C1. The classification is decided by the newest family that has a marker in the
  lowered name: when the name holds a marker of a newer and a marker of an older family
  (\<open>pop\<close> together with \<open>fbxgw8\<close> or \<open>v8\<close>, say), the result is never the older
  family; the result is the family with a marker than which no family with a marker is
  newer; and a name with no marker at all classifies as unknown.
\<close>

theorem newest_family_wins:
  "(has_marker newer (toLowerCase s) \<and> has_marker older (toLowerCase s)
      \<and> recency older < recency newer
      \<longrightarrow> detectModelFromName s \<noteq> older)
   \<and> (has_marker f (toLowerCase s)
      \<and> (\<forall>g. has_marker g (toLowerCase s) \<longrightarrow> recency g \<le> recency f)
      \<longrightarrow> detectModelFromName s = f)
   \<and> ((\<forall>g. \<not> has_marker g (toLowerCase s)) \<longrightarrow> detectModelFromName s = Unknown)"
proof (intro conjI impI)
  assume "has_marker newer (toLowerCase s) \<and> has_marker older (toLowerCase s)
    \<and> recency older < recency newer"
  then show "detectModelFromName s \<noteq> older"
    using detect_at_least [of newer s] by auto
next
  assume a: "has_marker f (toLowerCase s)
    \<and> (\<forall>g. has_marker g (toLowerCase s) \<longrightarrow> recency g \<le> recency f)"
  then have lo: "recency f \<le> recency (detectModelFromName s)"
    using detect_at_least by blast
  have "detectModelFromName s \<noteq> Unknown"
    using a lo by (cases f) (auto simp: has_marker_def)
  then have "recency (detectModelFromName s) \<le> recency f"
    using a detect_has_marker by blast
  with lo show "detectModelFromName s = f"
    using recency_inj by simp
next
  assume "\<forall>g. \<not> has_marker g (toLowerCase s)"
  then show "detectModelFromName s = Unknown"
    using detect_has_marker by blast
qed

lemma lower_fbxgw8_pop: "toLowerCase ''fbxgw8-Pop'' = ''fbxgw8-pop''"
  by code_simp

lemma lower_freebox: "toLowerCase ''Freebox'' = ''freebox''"
  by code_simp

theorem newest_family_wins_witness:
  "has_marker Pop (toLowerCase ''fbxgw8-Pop'') \<and> has_marker Delta (toLowerCase ''fbxgw8-Pop'')
   \<and> recency Delta < recency Pop
   \<and> \<not> has_marker Ultra (toLowerCase ''fbxgw8-Pop'')
   \<and> detectModelFromName ''fbxgw8-Pop'' \<noteq> Delta
   \<and> detectModelFromName ''fbxgw8-Pop'' = Pop
   \<and> (\<forall>g. \<not> has_marker g (toLowerCase ''Freebox''))
   \<and> detectModelFromName ''Freebox'' = Unknown"
proof -
  have p: "has_marker Pop (toLowerCase ''fbxgw8-Pop'')"
    by code_simp
  have d: "has_marker Delta (toLowerCase ''fbxgw8-Pop'')"
    by code_simp
  have r: "recency Delta < recency Pop"
    by simp
  have u: "\<not> has_marker Ultra (toLowerCase ''fbxgw8-Pop'')"
    by code_simp
  have top: "\<forall>g. has_marker g (toLowerCase ''fbxgw8-Pop'') \<longrightarrow> recency g \<le> recency Pop"
  proof
    fix g
    show "has_marker g (toLowerCase ''fbxgw8-Pop'') \<longrightarrow> recency g \<le> recency Pop"
      unfolding lower_fbxgw8_pop by (cases g) (simp_all add: has_marker_def startsWith_def)
  qed
  have none: "\<forall>g. \<not> has_marker g (toLowerCase ''Freebox'')"
  proof
    fix g
    show "\<not> has_marker g (toLowerCase ''Freebox'')"
      unfolding lower_freebox
      by (cases g) (simp_all add: has_marker_def startsWith_def revolution_accented_def)
  qed
  from newest_family_wins [of Pop "''fbxgw8-Pop''" Delta Pop]
    newest_family_wins [of Pop "''Freebox''" Delta Pop] p d r u top none
  show ?thesis
    by blast
qed

text \<open>
  Claim C8. The name \<open>Freebox Pop\<close> classifies as the Pop, whose entry in the table has
  no VM support, no VM and no 6 GHz band; and a detection on a cold cache, the appliance
  answering the version call with that model name, returns a record with just these
  values.
\<close>

theorem freebox_pop_end_to_end:
  "detectModelFromName ''Freebox Pop'' = Pop
   \<and> vmSupport (MODEL_CAPABILITIES Pop) = VmNone
   \<and> maxVms (MODEL_CAPABILITIES Pop) = 0
   \<and> wifi6ghz (MODEL_CAPABILITIES Pop) = False
   \<and> (\<exists>caps det. detectModel coldCache registered None now later
         (answers (JObj [(''box_model_name'', JStr ''Freebox Pop'')]))
         = (Inr (Capabilities caps), det, [versionCall registered])
       \<and> model caps = Pop \<and> modelName caps = ''Freebox Pop''
       \<and> vmSupport caps = VmNone \<and> maxVms caps = 0 \<and> wifi6ghz caps = False)"
proof -
  have c: "detectModelFromName ''Freebox Pop'' = Pop"
    by code_simp
  have n: "modelNameOf (JObj [(''box_model_name'', JStr ''Freebox Pop'')]) = JStr ''Freebox Pop''"
    by (simp add: modelNameOf_def orElse_def)
  show ?thesis
    by (simp add: c n detectModel_def freshCache_def coldCache_def performDetection_def
        mockSelected_def
        getApiVersion_def answers_def detectionTry_def detectModelFromValue_def Let_def
        buildCapabilities_def ModelBaseCapabilities.extend_def FreeboxCapabilities.fields_def)
qed

theorem freebox_pop_end_to_end_witness:
  "detectModelFromName ''Freebox Pop'' = Pop
   \<and> vmSupport (MODEL_CAPABILITIES Pop) = VmNone
   \<and> maxVms (MODEL_CAPABILITIES Pop) = 0
   \<and> wifi6ghz (MODEL_CAPABILITIES Pop) = False
   \<and> (\<exists>caps det. detectModel coldCache registered None 1000 1200
         (answers (JObj [(''box_model_name'', JStr ''Freebox Pop'')]))
         = (Inr (Capabilities caps), det, [versionCall registered])
       \<and> model caps = Pop \<and> modelName caps = ''Freebox Pop''
       \<and> vmSupport caps = VmNone \<and> maxVms caps = 0 \<and> wifi6ghz caps = False)"
  by (rule freebox_pop_end_to_end [of 1000 1200])

section \<open>The request and the operations built on it\<close>

lemma request_total: "\<exists>r. fst (request svc meth endpoint b auth net) = Inr r"
  by (simp add: request_def Let_def split: sum.splits)

lemma request_trace: "snd (request svc meth endpoint b auth net) = [requestCall svc meth endpoint b auth]"
  by (simp add: request_def Let_def)


lemma request_not_json:
  "net (requestCall svc meth endpoint b auth) = Resolved rsp \<Longrightarrow> \<not> declaresJson rsp \<Longrightarrow>
   fst (request svc meth endpoint b auth net) = Inr (invalid_response (status rsp))"
  by (simp add: request_def Let_def requestTry_def)

lemma request_parse_throws:
  "net (requestCall svc meth endpoint b auth) = Resolved rsp \<Longrightarrow> declaresJson rsp \<Longrightarrow>
   bodyJson rsp = Inl m \<Longrightarrow>
   fst (request svc meth endpoint b auth net) = Inr (request_failed (JsError m))"
  by (simp add: request_def Let_def requestTry_def)







lemma getChallenge_Inr:
  "getChallenge svc net = (Inr chal, svc1, tr) \<Longrightarrow> svc1 = svc\<lparr>challenge := Some chal\<rparr>"
proof -
  assume a: "getChallenge svc net = (Inr chal, svc1, tr)"
  obtain v tr0 where req: "request svc ''GET'' LOGIN None False net = (v, tr0)"
    by (cases "request svc ''GET'' LOGIN None False net")
  show ?thesis
  proof (cases v)
    case (Inl e) with a req show ?thesis by (simp add: getChallenge_def)
  next
    case (Inr r) with a req show ?thesis
      by (cases "result r"; cases "success r") (simp_all add: getChallenge_def)
  qed
qed



lemma failed_invalid_response: "failed (invalid_response n)"
  by (simp add: failed_def invalid_response_def)

lemma login_without_token:
  "\<not> truthyStr (appToken svc) \<Longrightarrow>
   login hmac svc cfg netC netS
     = (Inl (JsError ''No app_token available. Please register first.''), svc, [])"
  by (simp add: login_def)

lemma requestCall_without_session:
  "\<not> truthyStr (sessionToken svc) \<Longrightarrow>
   requestCall svc meth endpoint b True = requestCall svc meth endpoint b False"
  by (auto simp: requestCall_def truthyStr_def split: option.splits)

lemma request_without_session:
  "\<not> truthyStr (sessionToken svc) \<Longrightarrow>
   request svc meth endpoint b True net = request svc meth endpoint b False net"
  by (simp add: request_def requestCall_without_session)

lemma headers_without_session:
  "\<not> truthyStr (sessionToken svc) \<Longrightarrow>
   headers (requestCall svc meth endpoint b True) = [(''Content-Type'', ''application/json'')]"
  by (auto simp: requestCall_def truthyStr_def split: option.splits)

lemma logout_with_session:
  "truthyStr (sessionToken svc) \<Longrightarrow>
   logout svc net = (Inr (), svc\<lparr>sessionToken := None\<rparr>,
                     [requestCall svc ''POST'' LOGIN_LOGOUT None True])"
  by (simp add: logout_def request_def Let_def split: sum.splits)

lemma openSession_Inr:
  assumes "openSession hmac svc cfg chal netS = (Inr sd, svc1, tr)"
  shows "svc1 = svc\<lparr>sessionToken := Some (sd_sessionToken sd),
                      challenge := Some (sd_challenge sd), permissions := sd_permissions sd\<rparr>"
proof (cases "computePassword hmac svc chal")
  case (Inl e) with assms show ?thesis by (simp add: openSession_def)
next
  case (Inr pw)
  obtain v tr0 where req:
    "request svc ''POST'' LOGIN_SESSION (Some (sessionBody cfg pw)) False netS = (v, tr0)"
    by (cases "request svc ''POST'' LOGIN_SESSION (Some (sessionBody cfg pw)) False netS")
  show ?thesis
  proof (cases v)
    case (Inl e) with assms Inr req show ?thesis by (simp add: openSession_def)
  next
    case r: (Inr r) with assms Inr req show ?thesis
      by (cases "result r"; cases "success r") (auto simp add: openSession_def)
  qed
qed

lemma login_success_state:
  assumes "login hmac svc cfg netC netS = (Inr sd, svc1, tr)"
  shows "svc1 = svc\<lparr>sessionToken := Some (sd_sessionToken sd),
                      challenge := Some (sd_challenge sd), permissions := sd_permissions sd\<rparr>"
proof -
  have t: "truthyStr (appToken svc)"
    using assms by (auto simp: login_def split: if_splits)
  obtain v s1 t1 where g: "getChallenge svc netC = (v, s1, t1)"
    by (cases "getChallenge svc netC")
  show ?thesis
  proof (cases v)
    case (Inl e) with assms t g show ?thesis by (simp add: login_def)
  next
    case (Inr c)
    have s1: "s1 = svc\<lparr>challenge := Some c\<rparr>"
      using getChallenge_Inr g Inr by blast
    obtain v2 s2 t2 where o: "openSession hmac s1 cfg c netS = (v2, s2, t2)"
      by (cases "openSession hmac s1 cfg c netS")
    have "c \<noteq> [] \<and> v2 = Inr sd \<and> s2 = svc1"
      using assms t g Inr s1 o by (auto simp: login_def split: if_splits)
    then show ?thesis
      using openSession_Inr [of hmac s1 cfg c netS sd svc1 t2] o s1 by simp
  qed
qed





text \<open>
  Claim C3 as stated fails: in a state with no session token an authenticated request
  is sent to the appliance all the same, without the session header.
\<close>

theorem call_without_session_reaches_network:
  "sessionToken unregistered = None
   \<and> snd (request unregistered ''GET'' ''/system/'' None True
          (unreachable :: http_call \<Rightarrow> unit FreeboxApiResponse fetched))
     = [\<lparr>httpMethod = ''GET'', target = ''https://mafreebox.freebox.fr/api/v4/system/'',
         headers = [(''Content-Type'', ''application/json'')], body = None\<rparr>]"
  by (simp add: request_def requestCall_def buildUrl_def unregistered_def apiVersion_def
      startsWith_def Let_def)

text \<open>
  Claim C3, as amended. With no application token (null or empty), \<open>login\<close> throws at
  once, leaves the state as it was and makes no call on the network. With no session
  token, an authenticated request is not stopped: it makes the one call an
  unauthenticated request makes, with the content type as its only header, and returns
  what that returns.
\<close>

theorem login_guard_local_request_not_guarded:
  "(\<not> truthyStr (appToken svc)
      \<longrightarrow> login hmac svc cfg netC netS
          = (Inl (JsError ''No app_token available. Please register first.''), svc, []))
   \<and> (\<not> truthyStr (sessionToken svc)
      \<longrightarrow> snd (request svc meth endpoint b True net) = [requestCall svc meth endpoint b True]
        \<and> headers (requestCall svc meth endpoint b True)
          = [(''Content-Type'', ''application/json'')]
        \<and> request svc meth endpoint b True net = request svc meth endpoint b False net)"
  using login_without_token [of svc hmac cfg netC netS]
    request_trace [of svc meth endpoint b True net]
    headers_without_session [of svc meth endpoint b]
    request_without_session [of svc meth endpoint b net]
  by (intro conjI impI) simp_all

theorem login_guard_local_request_not_guarded_witness:
  "\<not> truthyStr (appToken unregistered)
   \<and> login concatHmac unregistered exampleConfig unreachable unreachable
     = (Inl (JsError ''No app_token available. Please register first.''), unregistered, [])
   \<and> \<not> truthyStr (sessionToken unregistered)
   \<and> snd (request unregistered ''GET'' ''/system/'' None True
          (unreachable :: http_call \<Rightarrow> unit FreeboxApiResponse fetched))
     = [requestCall unregistered ''GET'' ''/system/'' None True]
   \<and> headers (requestCall unregistered ''GET'' ''/system/'' None True)
     = [(''Content-Type'', ''application/json'')]
   \<and> request unregistered ''GET'' ''/system/'' None True
        (unreachable :: http_call \<Rightarrow> unit FreeboxApiResponse fetched)
     = request unregistered ''GET'' ''/system/'' None False unreachable"
proof -
  have a: "\<not> truthyStr (appToken unregistered)"
    by (simp add: unregistered_def truthyStr_def)
  have s: "\<not> truthyStr (sessionToken unregistered)"
    by (simp add: unregistered_def truthyStr_def)
  from a s login_guard_local_request_not_guarded
    [of unregistered concatHmac exampleConfig unreachable unreachable "''GET''" "''/system/''" None
      "unreachable :: http_call \<Rightarrow> unit FreeboxApiResponse fetched"]
  show ?thesis
    by blast
qed

text \<open>
  Claim C6 as stated fails: a response that declares JSON and whose body is no JSON gives
  the code \<open>request_failed\<close>, not \<open>invalid_response\<close>.
\<close>

theorem broken_json_is_request_failed:
  "fst (request loggedIn ''GET'' ''/system/'' None True
          (brokenJson :: http_call \<Rightarrow> unit FreeboxApiResponse fetched))
     = Inr \<lparr>success = False, result = None, error_code = Some ''request_failed'',
            msg = Some ''Unexpected end of JSON input''\<rparr>"
  by (simp add: request_def requestTry_def brokenJson_def declaresJson_def startsWith_def
      request_failed_def Let_def)

lemma declaresJson_None: "contentType rsp = None \<Longrightarrow> \<not> declaresJson rsp"
  by (simp add: declaresJson_def)

lemma declaresJson_Some:
  "contentType rsp = Some ct \<Longrightarrow> declaresJson rsp = includesStr ct ''application/json''"
  by (cases ct) (simp_all add: declaresJson_def)

text \<open>
  Claim C6, as amended. A response with no content type, or with one that does not
  contain \<open>application/json\<close>, gives the failure record with the code
  \<open>invalid_response\<close>, whatever its body; a response that declares JSON and whose body
  does not parse gives the failure record with the code \<open>request_failed\<close>. In no case
  does \<open>request\<close> throw.
\<close>

theorem content_type_decides_invalid_response:
  "(net (requestCall svc meth endpoint b auth) = Resolved rsp \<and> contentType rsp = None
      \<longrightarrow> fst (request svc meth endpoint b auth net) = Inr (invalid_response (status rsp)))
   \<and> (net (requestCall svc meth endpoint b auth) = Resolved rsp \<and> contentType rsp = Some ct
        \<and> \<not> includesStr ct ''application/json''
      \<longrightarrow> fst (request svc meth endpoint b auth net) = Inr (invalid_response (status rsp)))
   \<and> (net (requestCall svc meth endpoint b auth) = Resolved rsp \<and> contentType rsp = Some ct
        \<and> includesStr ct ''application/json'' \<and> bodyJson rsp = Inl m
      \<longrightarrow> fst (request svc meth endpoint b auth net) = Inr (request_failed (JsError m)))
   \<and> error_code (invalid_response (status rsp) :: 'a FreeboxApiResponse) = Some ''invalid_response''
   \<and> success (invalid_response (status rsp) :: 'a FreeboxApiResponse) = False
   \<and> error_code (request_failed (JsError m) :: 'a FreeboxApiResponse) = Some ''request_failed''
   \<and> (\<exists>r. fst (request svc meth endpoint b auth net) = Inr r)"
  using request_not_json [of net svc meth endpoint b auth rsp]
    request_parse_throws [of net svc meth endpoint b auth rsp m]
    request_total [of svc meth endpoint b auth net]
    declaresJson_None [of rsp] declaresJson_Some [of rsp ct]
  by (intro conjI impI) (simp_all add: invalid_response_def request_failed_def)

theorem content_type_decides_invalid_response_witness:
  "fst (request loggedIn ''GET'' ''/system/'' None True
          (noContentType :: http_call \<Rightarrow> unit FreeboxApiResponse fetched))
     = Inr (invalid_response 200)
   \<and> fst (request loggedIn ''GET'' ''/system/'' None True
          (htmlPage :: http_call \<Rightarrow> unit FreeboxApiResponse fetched))
     = Inr (invalid_response 502)
   \<and> error_code (invalid_response 502 :: unit FreeboxApiResponse) = Some ''invalid_response''
   \<and> \<not> includesStr ''text/html'' ''application/json''
   \<and> includesStr ''application/json'' ''application/json''
   \<and> fst (request loggedIn ''GET'' ''/system/'' None True
          (brokenJson :: http_call \<Rightarrow> unit FreeboxApiResponse fetched))
     = Inr (request_failed (JsError ''Unexpected end of JSON input''))"
proof -
  have h: "\<not> includesStr ''text/html'' ''application/json''"
    by (simp add: startsWith_def)
  have j: "includesStr ''application/json'' ''application/json''"
    by (simp add: startsWith_def)
  note inst = content_type_decides_invalid_response
    [where svc = loggedIn and meth = "''GET''" and endpoint = "''/system/''" and b = None
       and auth = True]
  have 0: "fst (request loggedIn ''GET'' ''/system/'' None True
          (noContentType :: http_call \<Rightarrow> unit FreeboxApiResponse fetched))
     = Inr (invalid_response 200)"
    using inst [where net = "noContentType :: http_call \<Rightarrow> unit FreeboxApiResponse fetched"
        and rsp = "\<lparr>status = 200, contentType = None, bodyText = ''ok'',
                     bodyJson = Inl ''Unexpected token o''\<rparr>",
        THEN conjunct1]
    by (simp add: noContentType_def)
  have 1: "fst (request loggedIn ''GET'' ''/system/'' None True
          (htmlPage :: http_call \<Rightarrow> unit FreeboxApiResponse fetched))
     = Inr (invalid_response 502)"
    using h inst [where net = "htmlPage :: http_call \<Rightarrow> unit FreeboxApiResponse fetched"
        and ct = "''text/html''"
        and rsp = "\<lparr>status = 502, contentType = Some ''text/html'',
                     bodyText = ''<html></html>'', bodyJson = Inl ''Unexpected token <''\<rparr>",
        THEN conjunct2, THEN conjunct1]
    by (simp add: htmlPage_def del: includesStr.simps)
  have 2: "fst (request loggedIn ''GET'' ''/system/'' None True
          (brokenJson :: http_call \<Rightarrow> unit FreeboxApiResponse fetched))
     = Inr (request_failed (JsError ''Unexpected end of JSON input''))"
    using j inst [where net = "brokenJson :: http_call \<Rightarrow> unit FreeboxApiResponse fetched"
        and ct = "''application/json''" and m = "''Unexpected end of JSON input''"
        and rsp = "\<lparr>status = 200, contentType = Some ''application/json'', bodyText = ''{'',
                     bodyJson = Inl ''Unexpected end of JSON input''\<rparr>",
        THEN conjunct2, THEN conjunct2, THEN conjunct1]
    by (simp add: brokenJson_def del: includesStr.simps)
  from 0 1 2 h j show ?thesis
    by (simp add: invalid_response_def)
qed

text \<open>
  Claim C10 as stated fails: when the appliance opens the session with an empty session
  token, \<open>login\<close> succeeds, \<open>logout\<close> finds the token falsy and does nothing, and
  \<open>isLoggedIn\<close> still holds.
\<close>

theorem empty_session_token_survives_logout:
  "fst (login concatHmac registered exampleConfig (answers (ok (LoginResult False ''abc'')))
          (answers (ok (SessionResult [] ''c2'' [(''settings'', True)]))))
     = Inr (SessionData [] ''c2'' [(''settings'', True)])
   \<and> isLoggedIn (fst (snd (logout
        (fst (snd (login concatHmac registered exampleConfig
                     (answers (ok (LoginResult False ''abc'')))
                     (answers (ok (SessionResult [] ''c2'' [(''settings'', True)]))))))
        unreachable)))"
  by (simp add: login_def getChallenge_def openSession_def computePassword_def request_def
        requestTry_def answers_def declaresJson_def startsWith_def ok_def 
        registered_def unregistered_def truthyStr_def strOr_def Let_def logout_def isLoggedIn_def)

text \<open>
  Claim C10, as amended. In a state reached by a successful \<open>login\<close> whose session token
  is not empty, \<open>logout\<close> makes one call, returns, and leaves the session token null, so
  that \<open>isLoggedIn\<close> is false, while the application token, the challenge, the
  permissions and the base URL are as \<open>login\<close> left them: \<open>getPermissions\<close> still
  returns the permissions of that login.
\<close>

theorem logout_clears_only_session_token:
  assumes "login hmac svc cfg netC netS = (Inr sd, svc1, tr)"
    and "sd_sessionToken sd \<noteq> []"
    and "logout svc1 net = (r, svc2, tr2)"
  shows "r = Inr () \<and> sessionToken svc2 = None \<and> \<not> isLoggedIn svc2
    \<and> appToken svc2 = appToken svc1 \<and> challenge svc2 = challenge svc1
    \<and> permissions svc2 = permissions svc1 \<and> baseUrl svc2 = baseUrl svc1
    \<and> getPermissions svc2 = sd_permissions sd
    \<and> tr2 = [requestCall svc1 ''POST'' LOGIN_LOGOUT None True]"
proof -
  have s1: "svc1 = svc\<lparr>sessionToken := Some (sd_sessionToken sd),
                      challenge := Some (sd_challenge sd), permissions := sd_permissions sd\<rparr>"
    using login_success_state [OF assms(1)] .
  then have "truthyStr (sessionToken svc1)"
    using assms(2) by (simp add: truthyStr_def)
  then have "logout svc1 net = (Inr (), svc1\<lparr>sessionToken := None\<rparr>,
                     [requestCall svc1 ''POST'' LOGIN_LOGOUT None True])"
    by (rule logout_with_session)
  with assms(3) have "r = Inr ()" and "svc2 = svc1\<lparr>sessionToken := None\<rparr>"
    and "tr2 = [requestCall svc1 ''POST'' LOGIN_LOGOUT None True]"
    by simp_all
  then show ?thesis
    using s1 by (simp add: isLoggedIn_def getPermissions_def)
qed

theorem logout_clears_only_session_token_witness:
  "login concatHmac registered exampleConfig (answers (ok (LoginResult False ''abc'')))
      (answers (ok (SessionResult ''s9'' ''c2'' [(''settings'', True)])))
     = (Inr (SessionData ''s9'' ''c2'' [(''settings'', True)]),
        registered\<lparr>sessionToken := Some ''s9'', challenge := Some ''c2'',
                    permissions := [(''settings'', True)]\<rparr>,
        [requestCall registered ''GET'' LOGIN None False,
         requestCall (registered\<lparr>challenge := Some ''abc''\<rparr>) ''POST'' LOGIN_SESSION
           (Some (sessionBody exampleConfig (concatHmac ''secret'' ''abc''))) False])
   \<and> sd_sessionToken (SessionData ''s9'' ''c2'' [(''settings'', True)]) \<noteq> []
   \<and> logout (registered\<lparr>sessionToken := Some ''s9'', challenge := Some ''c2'',
                          permissions := [(''settings'', True)]\<rparr>) unreachable
     = (Inr (), registered\<lparr>sessionToken := None, challenge := Some ''c2'',
                           permissions := [(''settings'', True)]\<rparr>,
        [requestCall (registered\<lparr>sessionToken := Some ''s9'', challenge := Some ''c2'',
                          permissions := [(''settings'', True)]\<rparr>) ''POST'' LOGIN_LOGOUT None True])
   \<and> getPermissions (registered\<lparr>sessionToken := None, challenge := Some ''c2'',
                           permissions := [(''settings'', True)]\<rparr>) = [(''settings'', True)]"
proof -
  have l: "login concatHmac registered exampleConfig (answers (ok (LoginResult False ''abc'')))
      (answers (ok (SessionResult ''s9'' ''c2'' [(''settings'', True)])))
     = (Inr (SessionData ''s9'' ''c2'' [(''settings'', True)]),
        registered\<lparr>sessionToken := Some ''s9'', challenge := Some ''c2'',
                    permissions := [(''settings'', True)]\<rparr>,
        [requestCall registered ''GET'' LOGIN None False,
         requestCall (registered\<lparr>challenge := Some ''abc''\<rparr>) ''POST'' LOGIN_SESSION
           (Some (sessionBody exampleConfig (concatHmac ''secret'' ''abc''))) False])"
    by (simp add: login_def getChallenge_def openSession_def computePassword_def request_def
        requestTry_def answers_def declaresJson_def startsWith_def ok_def
        registered_def unregistered_def truthyStr_def strOr_def Let_def)
  have n: "sd_sessionToken (SessionData ''s9'' ''c2'' [(''settings'', True)]) \<noteq> []"
    by simp
  obtain r svc2 tr2 where o: "logout (registered\<lparr>sessionToken := Some ''s9'', challenge := Some ''c2'',
                          permissions := [(''settings'', True)]\<rparr>) unreachable = (r, svc2, tr2)"
    by (metis prod.exhaust)
  from logout_clears_only_session_token [OF l n o] o
  show ?thesis
    using l n by (simp add: registered_def unregistered_def getPermissions_def) 
qed

section \<open>The token store\<close>













section \<open>The password\<close>

text \<open>
  Claim C9. The password depends on the application token and the challenge alone: two
  runs of \<open>computePassword\<close> on the same challenge, in states that hold the same token,
  give the same result, whatever else the states hold; with a token present, that result
  is the digest of the challenge under the token.
\<close>

theorem computePassword_deterministic:
  "(appToken s1 = appToken s2
      \<longrightarrow> computePassword hmac s1 chal = computePassword hmac s2 chal)
   \<and> (appToken s1 = Some tok \<and> tok \<noteq> []
      \<longrightarrow> computePassword hmac s1 chal = Inr (hmac tok chal))"
  by (simp add: computePassword_def)

theorem computePassword_deterministic_witness:
  "appToken registered = appToken loggedIn
   \<and> computePassword concatHmac registered ''abc'' = computePassword concatHmac loggedIn ''abc''
   \<and> appToken registered = Some ''secret'' \<and> ''secret'' \<noteq> []
   \<and> computePassword concatHmac registered ''abc'' = Inr (concatHmac ''secret'' ''abc'')
   \<and> concatHmac ''secret'' ''abc'' = ''secret:abc''"
proof -
  have a: "appToken registered = appToken loggedIn"
    by (simp add: loggedIn_def)
  have b: "appToken registered = Some ''secret'' \<and> ''secret'' \<noteq> []"
    by (simp add: registered_def)
  note inst = computePassword_deterministic
    [of registered loggedIn concatHmac "''abc''" "''secret''"]
  have c1: "computePassword concatHmac registered ''abc''
      = computePassword concatHmac loggedIn ''abc''"
    using a inst by blast
  have c2: "computePassword concatHmac registered ''abc'' = Inr (concatHmac ''secret'' ''abc'')"
    using b inst by blast
  have e: "concatHmac ''secret'' ''abc'' = ''secret:abc''"
    by (simp add: concatHmac_def)
  from a b c1 c2 e show ?thesis
    by blast
qed

section \<open>Detection of the model\<close>

lemma getApiVersion_trace: "snd (getApiVersion api net) = [versionCall api]"
  by (simp add: getApiVersion_def Let_def)

lemma detectModelFromValue_not_string:
  "\<not> isString v \<Longrightarrow> \<exists>e. detectModelFromValue v = Inl e"
  by (cases v) (simp_all add: isString_def detectModelFromValue_def)

lemma detectionTry_fails:
  assumes "detectionFails (net (versionCall api))"
  shows "detectionTry det (fst (getApiVersion api net)) now
           = Inr (buildDefaultCapabilities det now)
         \<or> (\<exists>e. detectionTry det (fst (getApiVersion api net)) now = Inl e)"
proof (cases "net (versionCall api)")
  case (Rejected e)
  then show ?thesis
    by (simp add: getApiVersion_def Let_def detectionTry_def)
next
  case (Resolved r)
  show ?thesis
  proof (cases "bodyJson r")
    case (Inl m)
    with Resolved show ?thesis
      by (simp add: getApiVersion_def Let_def detectionTry_def)
  next
    case (Inr d)
    with Resolved assms have "\<not> truthy d \<or> \<not> isString (modelNameOf d)"
      by (simp add: detectionFails_def)
    then show ?thesis
    proof
      assume "\<not> truthy d"
      with Resolved Inr show ?thesis
        by (simp add: getApiVersion_def Let_def detectionTry_def)
    next
      assume "\<not> isString (modelNameOf d)"
      then obtain e where "detectModelFromValue (modelNameOf d) = Inl e"
        using detectModelFromValue_not_string by blast
      with Resolved Inr show ?thesis
        by (simp add: getApiVersion_def Let_def detectionTry_def)
    qed
  qed
qed

lemma performDetection_fails:
  assumes "mockSelected mock = None" and "detectionFails (net (versionCall api))"
  shows "performDetection det api mock now net
     = (Inr (Capabilities (buildCapabilities Unknown ''Freebox'' FlavorLight)),
        det\<lparr>capabilities := Some (Capabilities (buildCapabilities Unknown ''Freebox'' FlavorLight)),
            lastDetectionTime := now\<rparr>,
        [versionCall api])"
proof -
  obtain resp tr where g: "getApiVersion api net = (resp, tr)"
    by (cases "getApiVersion api net")
  then have tr: "tr = [versionCall api]" and resp: "resp = fst (getApiVersion api net)"
    using getApiVersion_trace [of api net] by simp_all
  from detectionTry_fails [of net api det now] assms(2) resp
  have "detectionTry det resp now = Inr (buildDefaultCapabilities det now)
         \<or> (\<exists>e. detectionTry det resp now = Inl e)"
    by simp
  then show ?thesis
    using assms(1) g tr
    by (auto simp: performDetection_def buildDefaultCapabilities_def Let_def)
qed

lemma performDetection_returns: "\<exists>caps. fst (performDetection det api mock now net) = Inr caps"
  by (simp add: performDetection_def Let_def
      split: option.splits prod.splits sum.splits mockEntry.splits)

lemma detectModel_returns: "\<exists>caps. fst (detectModel det api mock now later net) = Inr caps"
proof -
  obtain r d t where p: "performDetection det api mock later net = (r, d, t)"
    by (cases "performDetection det api mock later net")
  with performDetection_returns [of det api mock later net] obtain caps where "r = Inr caps"
    by auto
  with p show ?thesis
    by (simp add: detectModel_def split: option.splits)
qed

text \<open>
  The mock branch is taken for the two inherited names as well, in any letter case: no
  call is made, and what is returned and cached is no capabilities record.
\<close>

lemma inherited_name_selects_mock_branch:
  "performDetection coldCache registered (Some ''constructor'') 1200 unreachable
     = (Inr (Untyped (Some ''Object'')),
        coldCache\<lparr>capabilities := Some (Untyped (Some ''Object'')), lastDetectionTime := 1200\<rparr>,
        [])
   \<and> performDetection coldCache registered (Some ''__PROTO__'') 1200 unreachable
     = (Inr (Untyped None),
        coldCache\<lparr>capabilities := Some (Untyped None), lastDetectionTime := 1200\<rparr>, [])"
proof -
  have c: "toLowerCase ''constructor'' = ''constructor''"
    by code_simp
  have p: "toLowerCase ''__PROTO__'' = ''__proto__''"
    by code_simp
  show ?thesis
    by (simp add: performDetection_def mockSelected_def c p modelOfKey_def inheritedMember_def)
qed

text \<open>
  Claim C4. When the mock test selects nothing (the variable is unset or empty, or its
  lowered value is neither a key of the table nor an inherited name) and the detection
  fails (the version call is rejected, its body is no JSON, the document is empty, or
  the classification throws on a model name that is no string), \<open>_performDetection\<close>
  returns the default capabilities of the unknown family and caches them, and so does
  \<open>detectModel\<close> when it has neither a fresh cache nor a detection in flight. That
  record has every field set. Neither operation ever throws.
\<close>

theorem detection_failure_gives_defaults:
  "(mockSelected mock = None \<and> detectionFails (net (versionCall api))
      \<longrightarrow> performDetection det api mock later net
          = (Inr (Capabilities (buildCapabilities Unknown ''Freebox'' FlavorLight)),
             det\<lparr>capabilities := Some (Capabilities (buildCapabilities Unknown ''Freebox'' FlavorLight)),
                 lastDetectionTime := later\<rparr>,
             [versionCall api]))
   \<and> (mockSelected mock = None \<and> detectionFails (net (versionCall api))
        \<and> freshCache det now = None \<and> detectionPromise det = None
      \<longrightarrow> detectModel det api mock now later net
          = (Inr (Capabilities (buildCapabilities Unknown ''Freebox'' FlavorLight)),
             det\<lparr>capabilities := Some (Capabilities (buildCapabilities Unknown ''Freebox'' FlavorLight)),
                 lastDetectionTime := later, detectionPromise := None\<rparr>,
             [versionCall api]))
   \<and> buildCapabilities Unknown ''Freebox'' FlavorLight
       = \<lparr>model = Unknown, wifi6ghz = False, wifi7 = False, vmSupport = VmNone, maxVms = 0,
          maxVmRam = 0, temperatureType = Legacy,
          temperatureFields = [''temp_cpum'', ''temp_sw'', ''temp_cpub''],
          hasInternalStorage = False, maxEthernetSpeed = 1000, maxDownloadSpeed = 1000,
          maxUploadSpeed = 600, modelName = ''Freebox'', boxFlavor = FlavorLight\<rparr>
   \<and> (\<exists>caps. fst (performDetection det api mock later net) = Inr caps)
   \<and> (\<exists>caps. fst (detectModel det api mock now later net) = Inr caps)"
proof -
  have 1: "mockSelected mock = None \<and> detectionFails (net (versionCall api))
      \<longrightarrow> performDetection det api mock later net
          = (Inr (Capabilities (buildCapabilities Unknown ''Freebox'' FlavorLight)),
             det\<lparr>capabilities := Some (Capabilities (buildCapabilities Unknown ''Freebox'' FlavorLight)),
                 lastDetectionTime := later\<rparr>,
             [versionCall api])"
    using performDetection_fails by blast
  have 2: "mockSelected mock = None \<and> detectionFails (net (versionCall api))
        \<and> freshCache det now = None \<and> detectionPromise det = None
      \<longrightarrow> detectModel det api mock now later net
          = (Inr (Capabilities (buildCapabilities Unknown ''Freebox'' FlavorLight)),
             det\<lparr>capabilities := Some (Capabilities (buildCapabilities Unknown ''Freebox'' FlavorLight)),
                 lastDetectionTime := later, detectionPromise := None\<rparr>,
             [versionCall api])"
    using performDetection_fails [of mock net api det later]
    by (simp add: detectModel_def)
  have 3: "buildCapabilities Unknown ''Freebox'' FlavorLight
       = \<lparr>model = Unknown, wifi6ghz = False, wifi7 = False, vmSupport = VmNone, maxVms = 0,
          maxVmRam = 0, temperatureType = Legacy,
          temperatureFields = [''temp_cpum'', ''temp_sw'', ''temp_cpub''],
          hasInternalStorage = False, maxEthernetSpeed = 1000, maxDownloadSpeed = 1000,
          maxUploadSpeed = 600, modelName = ''Freebox'', boxFlavor = FlavorLight\<rparr>"
    by (simp add: buildCapabilities_def ModelBaseCapabilities.extend_def
        FreeboxCapabilities.fields_def)
  from 1 2 3 performDetection_returns [of det api mock later net]
    detectModel_returns [of det api mock now later net]
  show ?thesis
    by (intro conjI)
qed

theorem detection_failure_gives_defaults_witness:
  "mockSelected None = None
   \<and> detectionFails (unreachable (versionCall registered))
   \<and> freshCache coldCache 1000 = None \<and> detectionPromise coldCache = None
   \<and> detectModel coldCache registered None 1000 1200 unreachable
     = (Inr (Capabilities (buildCapabilities Unknown ''Freebox'' FlavorLight)),
        coldCache\<lparr>capabilities := Some (Capabilities (buildCapabilities Unknown ''Freebox'' FlavorLight)),
                  lastDetectionTime := 1200, detectionPromise := None\<rparr>,
        [versionCall registered])
   \<and> detectionFails (brokenJson (versionCall registered))
   \<and> detectionFails (answers JNull (versionCall registered))
   \<and> detectionFails (answers (JObj [(''box_model_name'', JNum 9)]) (versionCall registered))
   \<and> performDetection coldCache registered None 1200
        (answers (JObj [(''box_model_name'', JNum 9)]))
     = (Inr (Capabilities (buildCapabilities Unknown ''Freebox'' FlavorLight)),
        coldCache\<lparr>capabilities := Some (Capabilities (buildCapabilities Unknown ''Freebox'' FlavorLight)),
                  lastDetectionTime := 1200\<rparr>,
        [versionCall registered])
   \<and> mockSelected (Some ''Banana'') = None
   \<and> performDetection coldCache registered (Some ''Banana'') 1200 unreachable
     = (Inr (Capabilities (buildCapabilities Unknown ''Freebox'' FlavorLight)),
        coldCache\<lparr>capabilities :=
                    Some (Capabilities (buildCapabilities Unknown ''Freebox'' FlavorLight)),
                  lastDetectionTime := 1200\<rparr>,
        [versionCall registered])"
proof -
  have m: "mockSelected None = None"
    by (simp add: mockSelected_def)
  have u: "detectionFails (unreachable (versionCall registered))"
    by (simp add: detectionFails_def unreachable_def)
  have c: "freshCache coldCache 1000 = None \<and> detectionPromise coldCache = None"
    by (simp add: freshCache_def coldCache_def)
  have b: "detectionFails (brokenJson (versionCall registered))"
    by (simp add: detectionFails_def brokenJson_def)
  have n: "detectionFails (answers JNull (versionCall registered))"
    by (simp add: detectionFails_def answers_def)
  have x: "detectionFails (answers (JObj [(''box_model_name'', JNum 9)]) (versionCall registered))"
    by (simp add: detectionFails_def answers_def modelNameOf_def orElse_def isString_def)
  have 1: "detectModel coldCache registered None 1000 1200 unreachable
     = (Inr (Capabilities (buildCapabilities Unknown ''Freebox'' FlavorLight)),
        coldCache\<lparr>capabilities := Some (Capabilities (buildCapabilities Unknown ''Freebox'' FlavorLight)),
                  lastDetectionTime := 1200, detectionPromise := None\<rparr>,
        [versionCall registered])"
    using m u c detection_failure_gives_defaults
      [of None unreachable registered coldCache 1200 1000, THEN conjunct2, THEN conjunct1]
    by blast
  have 2: "performDetection coldCache registered None 1200
        (answers (JObj [(''box_model_name'', JNum 9)]))
     = (Inr (Capabilities (buildCapabilities Unknown ''Freebox'' FlavorLight)),
        coldCache\<lparr>capabilities := Some (Capabilities (buildCapabilities Unknown ''Freebox'' FlavorLight)),
                  lastDetectionTime := 1200\<rparr>,
        [versionCall registered])"
    using m x detection_failure_gives_defaults
      [of None "answers (JObj [(''box_model_name'', JNum 9)])" registered coldCache 1200 1000,
       THEN conjunct1]
    by blast
  have l: "toLowerCase ''Banana'' = ''banana''"
    by code_simp
  have k: "mockSelected (Some ''Banana'') = None"
    by (simp add: mockSelected_def l modelOfKey_def inheritedMember_def)
  have 3: "performDetection coldCache registered (Some ''Banana'') 1200 unreachable
     = (Inr (Capabilities (buildCapabilities Unknown ''Freebox'' FlavorLight)),
        coldCache\<lparr>capabilities :=
                    Some (Capabilities (buildCapabilities Unknown ''Freebox'' FlavorLight)),
                  lastDetectionTime := 1200\<rparr>,
        [versionCall registered])"
    using k u detection_failure_gives_defaults
      [of "Some ''Banana''" unreachable registered coldCache 1200 1000, THEN conjunct1]
    by blast
  from m u c 1 b n x 2 k 3 show ?thesis
    by blast
qed

lemma modelOfKey_nonempty: "modelOfKey k = Some f \<Longrightarrow> k \<noteq> []"
  by (auto simp: modelOfKey_def)

lemma performDetection_mock:
  assumes "modelOfKey (toLowerCase v) = Some f"
  shows "performDetection det api (Some v) now net
     = (Inr (Capabilities (buildCapabilities f (fst (MOCK_MODEL_NAMES f)) (snd (MOCK_MODEL_NAMES f)))),
        det\<lparr>capabilities :=
              Some (Capabilities (buildCapabilities f (fst (MOCK_MODEL_NAMES f)) (snd (MOCK_MODEL_NAMES f)))),
            lastDetectionTime := now\<rparr>,
        [])"
  using assms modelOfKey_nonempty [OF assms]
  by (simp add: performDetection_def mockSelected_def Let_def)

lemma buildCapabilities_base:
  "ModelBaseCapabilities.truncate (buildCapabilities f name flavor)
     = (MODEL_CAPABILITIES f)\<lparr>hasInternalStorage := (flavor = FlavorFull)\<rparr>"
  by (cases f)
    (simp_all add: buildCapabilities_def ModelBaseCapabilities.extend_def
      ModelBaseCapabilities.truncate_def FreeboxCapabilities.fields_def)

lemma buildCapabilities_name:
  "modelName (buildCapabilities f name flavor) = name
   \<and> boxFlavor (buildCapabilities f name flavor) = flavor"
  by (simp add: buildCapabilities_def ModelBaseCapabilities.extend_def
      FreeboxCapabilities.fields_def)

lemma mock_storage_as_table:
  "f \<noteq> Ultra \<Longrightarrow>
   (MODEL_CAPABILITIES f)\<lparr>hasInternalStorage := (snd (MOCK_MODEL_NAMES f) = FlavorFull)\<rparr>
     = MODEL_CAPABILITIES f"
  by (cases f) simp_all

text \<open>
  Claim C5 as stated fails: with the mock model \<open>ultra\<close> the record returned has
  internal storage, which the table of the Ultra has not, and its display name is the
  name of the real hardware, with no mark of a simulation.
\<close>

theorem mock_ultra_differs_from_table:
  "fst (performDetection coldCache registered (Some ''ultra'') 1200 unreachable)
     = Inr (Capabilities (buildCapabilities Ultra ''Freebox v9 (r1)'' FlavorFull))
   \<and> hasInternalStorage (buildCapabilities Ultra ''Freebox v9 (r1)'' FlavorFull)
   \<and> \<not> hasInternalStorage (MODEL_CAPABILITIES Ultra)
   \<and> modelName (buildCapabilities Ultra ''Freebox v9 (r1)'' FlavorFull) = ''Freebox v9 (r1)''
   \<and> \<not> includesStr (toLowerCase ''Freebox v9 (r1)'') ''mock''"
proof -
  have l: "toLowerCase ''ultra'' = ''ultra''"
    by code_simp
  have k: "modelOfKey ''ultra'' = Some Ultra"
    by (simp add: modelOfKey_def)
  have n: "\<not> includesStr (toLowerCase ''Freebox v9 (r1)'') ''mock''"
    by code_simp
  show ?thesis
    using n
    by (simp add: performDetection_def mockSelected_def l k Let_def buildCapabilities_def
        ModelBaseCapabilities.extend_def FreeboxCapabilities.fields_def
        del: includesStr.simps)
qed

text \<open>
  Claim C5, as amended. When the environment variable, lowered, is the name of a known
  family, the detection makes no call on the network and returns that family's table
  with the display name and the flavor of \<open>MOCK_MODEL_NAMES\<close>, the display name being
  the plain name of the hardware, and with \<open>hasInternalStorage\<close> set from that flavor:
  for every family but the Ultra the base fields are the table's, unchanged.
\<close>

theorem mock_bypasses_live_detection:
  "(modelOfKey (toLowerCase v) = Some f
      \<longrightarrow> performDetection det api (Some v) later net
          = (Inr (Capabilities (buildCapabilities f (fst (MOCK_MODEL_NAMES f)) (snd (MOCK_MODEL_NAMES f)))),
             det\<lparr>capabilities :=
                   Some (Capabilities (buildCapabilities f (fst (MOCK_MODEL_NAMES f))
                           (snd (MOCK_MODEL_NAMES f)))),
                 lastDetectionTime := later\<rparr>,
             []))
   \<and> (modelOfKey (toLowerCase v) = Some f \<and> freshCache det now = None
        \<and> detectionPromise det = None
      \<longrightarrow> fst (detectModel det api (Some v) now later net)
            = Inr (Capabilities (buildCapabilities f (fst (MOCK_MODEL_NAMES f)) (snd (MOCK_MODEL_NAMES f))))
        \<and> snd (snd (detectModel det api (Some v) now later net)) = [])
   \<and> ModelBaseCapabilities.truncate
        (buildCapabilities f (fst (MOCK_MODEL_NAMES f)) (snd (MOCK_MODEL_NAMES f)))
       = (MODEL_CAPABILITIES f)\<lparr>hasInternalStorage := (snd (MOCK_MODEL_NAMES f) = FlavorFull)\<rparr>
   \<and> (f \<noteq> Ultra
      \<longrightarrow> ModelBaseCapabilities.truncate
            (buildCapabilities f (fst (MOCK_MODEL_NAMES f)) (snd (MOCK_MODEL_NAMES f)))
          = MODEL_CAPABILITIES f)
   \<and> modelName (buildCapabilities f (fst (MOCK_MODEL_NAMES f)) (snd (MOCK_MODEL_NAMES f)))
       = fst (MOCK_MODEL_NAMES f)
   \<and> boxFlavor (buildCapabilities f (fst (MOCK_MODEL_NAMES f)) (snd (MOCK_MODEL_NAMES f)))
       = snd (MOCK_MODEL_NAMES f)"
proof -
  have 1: "modelOfKey (toLowerCase v) = Some f
      \<longrightarrow> performDetection det api (Some v) later net
          = (Inr (Capabilities (buildCapabilities f (fst (MOCK_MODEL_NAMES f)) (snd (MOCK_MODEL_NAMES f)))),
             det\<lparr>capabilities :=
                   Some (Capabilities (buildCapabilities f (fst (MOCK_MODEL_NAMES f))
                           (snd (MOCK_MODEL_NAMES f)))),
                 lastDetectionTime := later\<rparr>,
             [])"
    using performDetection_mock by blast
  have 2: "modelOfKey (toLowerCase v) = Some f \<and> freshCache det now = None
        \<and> detectionPromise det = None
      \<longrightarrow> fst (detectModel det api (Some v) now later net)
            = Inr (Capabilities (buildCapabilities f (fst (MOCK_MODEL_NAMES f)) (snd (MOCK_MODEL_NAMES f))))
        \<and> snd (snd (detectModel det api (Some v) now later net)) = []"
    using performDetection_mock [of v f det api later net]
    by (simp add: detectModel_def)
  have 4: "f \<noteq> Ultra
      \<longrightarrow> ModelBaseCapabilities.truncate
            (buildCapabilities f (fst (MOCK_MODEL_NAMES f)) (snd (MOCK_MODEL_NAMES f)))
          = MODEL_CAPABILITIES f"
    using mock_storage_as_table [of f] by (simp add: buildCapabilities_base)
  from 1 2 buildCapabilities_base [of f "fst (MOCK_MODEL_NAMES f)" "snd (MOCK_MODEL_NAMES f)"] 4
    buildCapabilities_name [of f "fst (MOCK_MODEL_NAMES f)" "snd (MOCK_MODEL_NAMES f)"]
  show ?thesis
    by (intro conjI) simp_all
qed

theorem mock_bypasses_live_detection_witness:
  "modelOfKey (toLowerCase ''POP'') = Some Pop
   \<and> freshCache coldCache 1000 = None \<and> detectionPromise coldCache = None
   \<and> Pop \<noteq> Ultra
   \<and> performDetection coldCache registered (Some ''POP'') 1200 unreachable
     = (Inr (Capabilities (buildCapabilities Pop ''Freebox Pop'' FlavorLight)),
        coldCache\<lparr>capabilities := Some (Capabilities (buildCapabilities Pop ''Freebox Pop'' FlavorLight)),
                  lastDetectionTime := 1200\<rparr>,
        [])
   \<and> fst (detectModel coldCache registered (Some ''POP'') 1000 1200 unreachable)
     = Inr (Capabilities (buildCapabilities Pop ''Freebox Pop'' FlavorLight))
   \<and> snd (snd (detectModel coldCache registered (Some ''POP'') 1000 1200 unreachable)) = []
   \<and> ModelBaseCapabilities.truncate (buildCapabilities Pop ''Freebox Pop'' FlavorLight)
     = MODEL_CAPABILITIES Pop
   \<and> modelName (buildCapabilities Pop ''Freebox Pop'' FlavorLight) = ''Freebox Pop''"
proof -
  have l: "toLowerCase ''POP'' = ''pop''"
    by code_simp
  have k: "modelOfKey (toLowerCase ''POP'') = Some Pop"
    by (simp add: l modelOfKey_def)
  have c: "freshCache coldCache 1000 = None \<and> detectionPromise coldCache = None"
    by (simp add: freshCache_def coldCache_def)
  have d: "Pop \<noteq> Ultra"
    by simp
  from k c d mock_bypasses_live_detection
    [of "''POP''" Pop coldCache registered 1200 unreachable 1000]
  show ?thesis
    by simp
qed

end
